theory Spec2Isabelle
  imports Main "HOL-Library.Sublist"
begin

section \<open>Shared types\<close>

text \<open>
  \<^verbatim>\<open>Address\<close> is a TypeScript alias of \<^verbatim>\<open>string\<close>. An options object
  (\<^verbatim>\<open>transactionOptions: object\<close>, \<^verbatim>\<open>txOpts: Tx\<close>) is modelled by its list of
  key/value pairs; the default \<^verbatim>\<open>{}\<close> is the empty list.
\<close>

type_synonym address = string

type_synonym txObject = "(string \<times> string) list"

text \<open>
  A promise that rejects is a result \<open>Inl e\<close>. Two kinds of rejection occur in the
  sources: the schema assertion on an address argument, carrying the argument's name and
  the offending value, and the rejection of an awaited call into another package
  (\<^verbatim>\<open>X.at\<close>, \<^verbatim>\<open>callAsync\<close>, a wrapper method), carrying that call's message.
\<close>

datatype error =
    SchemaValidationError string string
  | ExternalRejection string

section \<open>ProtocolContractWrapper: the contract resolver\<close>

text \<open>The contract classes of \<^verbatim>\<open>set-protocol-contracts\<close> the wrapper instantiates.\<close>

datatype contractClass =
    CoreContract
  | SetTokenContract
  | RebalancingSetTokenContract
  | ERC20DetailedContract
  | VaultContract
  | TransferProxyContract
  | RebalanceAuctionModuleContract
  | KyberNetworkWrapperContract
  | RebalancingSetExchangeIssuanceModuleContract
  | RebalancingSetIssuanceModuleContract
  | AuthorizableContract
  | TimeLockUpgradeContract
  | WhiteListContract
  | ExchangeIssuanceModuleContract
  | MedianContract
  | ProtocolViewerContract

text \<open>
  A contract object (\<^verbatim>\<open>CoreBaseContract\<close>). JavaScript objects are compared by
  reference, so every object carries the identity \<open>ref\<close> it got when it was constructed.
\<close>

record contractHandle =
  ref :: nat
  instanceOf :: contractClass
  contractAddress :: address
  defaults :: txObject

text \<open>
  The wrapper's state: the field \<^verbatim>\<open>cache\<close>, an object used as a dictionary from
  cache key to contract object, and the number of contract objects constructed for it so
  far, which is the identity the next one gets.
\<close>

record protocolContractWrapper =
  cache :: "string \<rightharpoonup> contractHandle"
  handlesCreated :: nat

text \<open>The constructor: \<^verbatim>\<open>this.cache = {}\<close>.\<close>

definition newProtocolContractWrapper :: protocolContractWrapper where
  "newProtocolContractWrapper = \<lparr>cache = Map.empty, handlesCreated = 0\<rparr>"

text \<open>
  \<^verbatim>\<open>X.at(address, web3, transactionOptions)\<close> belongs to \<^verbatim>\<open>set-protocol-contracts\<close>
  and is awaited, so it may reject. It is a parameter here: \<open>at X address options\<close> is
  \<open>None\<close> when the promise resolves to a new contract object and \<open>Some e\<close> when it
  rejects with \<open>e\<close>.
\<close>

type_synonym atFn = "contractClass \<Rightarrow> address \<Rightarrow> txObject \<Rightarrow> error option"

text \<open>
  The body every loader of the wrapper has, with the cache key's prefix and the contract
  class as arguments:
  \<^verbatim>\<open>
    const cacheKey = `Name_${address}`;
    if (cacheKey in this.cache) {
      return this.cache[cacheKey] as XContract;
    } else {
      const xContract = await XContract.at(address, this.web3, transactionOptions);
      this.cache[cacheKey] = xContract;
      return xContract;
    }
  \<close>
  Every key has the form \<^verbatim>\<open>Name_address\<close> with one of the names below, which no
  property inherited from \<^verbatim>\<open>Object.prototype\<close> has, so \<^verbatim>\<open>in\<close> is membership
  among the keys that were stored.
\<close>

definition loadCached ::
  "atFn \<Rightarrow> string \<Rightarrow> contractClass \<Rightarrow> address \<Rightarrow> txObject \<Rightarrow> protocolContractWrapper
    \<Rightarrow> (error + contractHandle) \<times> protocolContractWrapper" where
  "loadCached at name X addr transactionOptions w =
     (let cacheKey = name @ ''_'' @ addr in
      case cache w cacheKey of
        Some h \<Rightarrow> (Inr h, w)
      | None \<Rightarrow>
          (case at X addr transactionOptions of
             Some e \<Rightarrow> (Inl e, w)
           | None \<Rightarrow>
               (let xContract = \<lparr>ref = handlesCreated w, instanceOf = X,
                                  contractAddress = addr, defaults = transactionOptions\<rparr>
                in (Inr xContract,
                    w\<lparr>cache := (cache w)(cacheKey \<mapsto> xContract),
                      handlesCreated := Suc (handlesCreated w)\<rparr>))))"

text \<open>The sixteen loaders, each with the cache key prefix its source text has.\<close>

definition loadCoreAsync where
  "loadCoreAsync at = loadCached at ''Core'' CoreContract"

definition loadSetTokenAsync where
  "loadSetTokenAsync at = loadCached at ''SetToken'' SetTokenContract"

definition loadRebalancingSetTokenAsync where
  "loadRebalancingSetTokenAsync at = loadCached at ''RebalancingSetToken'' RebalancingSetTokenContract"

definition loadERC20TokenAsync where
  "loadERC20TokenAsync at = loadCached at ''ERC20Token'' ERC20DetailedContract"

definition loadVaultAsync where
  "loadVaultAsync at = loadCached at ''Vault'' VaultContract"

text \<open>The source of \<^verbatim>\<open>loadTransferProxyAsync\<close> reads \<^verbatim>\<open>`Vault_${transferProxyAddress}`\<close>.\<close>

definition loadTransferProxyAsync where
  "loadTransferProxyAsync at = loadCached at ''Vault'' TransferProxyContract"

definition loadRebalanceAuctionModuleAsync where
  "loadRebalanceAuctionModuleAsync at =
     loadCached at ''RebalanceAuctionModule'' RebalanceAuctionModuleContract"

definition loadKyberNetworkWrapperAsync where
  "loadKyberNetworkWrapperAsync at =
     loadCached at ''KyberNetworkWrapper'' KyberNetworkWrapperContract"

definition loadRebalancingSetExchangeIssuanceModuleAsync where
  "loadRebalancingSetExchangeIssuanceModuleAsync at =
     loadCached at ''RebalancingSetExchangeIssuanceModule''
       RebalancingSetExchangeIssuanceModuleContract"

definition loadRebalancingSetIssuanceModuleAsync where
  "loadRebalancingSetIssuanceModuleAsync at =
     loadCached at ''RebalancingSetIssuanceModule'' RebalancingSetIssuanceModuleContract"

definition loadAuthorizableAsync where
  "loadAuthorizableAsync at = loadCached at ''Authorizable'' AuthorizableContract"

definition loadTimeLockUpgradeAsync where
  "loadTimeLockUpgradeAsync at = loadCached at ''TimeLockUpgrade'' TimeLockUpgradeContract"

definition loadWhitelistAsync where
  "loadWhitelistAsync at = loadCached at ''WhiteList'' WhiteListContract"

definition loadExchangeIssuanceModuleAsync where
  "loadExchangeIssuanceModuleAsync at =
     loadCached at ''ExchangeIssuanceModule'' ExchangeIssuanceModuleContract"

definition loadMedianizerContract where
  "loadMedianizerContract at = loadCached at ''Medianizer'' MedianContract"

definition loadProtocolViewerContract where
  "loadProtocolViewerContract at = loadCached at ''ProtocolViewer'' ProtocolViewerContract"

text \<open>
  The spec's \<open>resolve(kind, address, options)\<close>: the loader of the wrapper that
  returns contracts of the given class.
\<close>

fun resolve ::
  "atFn \<Rightarrow> contractClass \<Rightarrow> address \<Rightarrow> txObject \<Rightarrow> protocolContractWrapper
    \<Rightarrow> (error + contractHandle) \<times> protocolContractWrapper" where
  "resolve at CoreContract = loadCoreAsync at"
| "resolve at SetTokenContract = loadSetTokenAsync at"
| "resolve at RebalancingSetTokenContract = loadRebalancingSetTokenAsync at"
| "resolve at ERC20DetailedContract = loadERC20TokenAsync at"
| "resolve at VaultContract = loadVaultAsync at"
| "resolve at TransferProxyContract = loadTransferProxyAsync at"
| "resolve at RebalanceAuctionModuleContract = loadRebalanceAuctionModuleAsync at"
| "resolve at KyberNetworkWrapperContract = loadKyberNetworkWrapperAsync at"
| "resolve at RebalancingSetExchangeIssuanceModuleContract =
     loadRebalancingSetExchangeIssuanceModuleAsync at"
| "resolve at RebalancingSetIssuanceModuleContract = loadRebalancingSetIssuanceModuleAsync at"
| "resolve at AuthorizableContract = loadAuthorizableAsync at"
| "resolve at TimeLockUpgradeContract = loadTimeLockUpgradeAsync at"
| "resolve at WhiteListContract = loadWhitelistAsync at"
| "resolve at ExchangeIssuanceModuleContract = loadExchangeIssuanceModuleAsync at"
| "resolve at MedianContract = loadMedianizerContract at"
| "resolve at ProtocolViewerContract = loadProtocolViewerContract at"

text \<open>The cache key prefix of each class's loader, read off the sixteen loaders above.\<close>

fun cacheKeyName :: "contractClass \<Rightarrow> string" where
  "cacheKeyName CoreContract = ''Core''"
| "cacheKeyName SetTokenContract = ''SetToken''"
| "cacheKeyName RebalancingSetTokenContract = ''RebalancingSetToken''"
| "cacheKeyName ERC20DetailedContract = ''ERC20Token''"
| "cacheKeyName VaultContract = ''Vault''"
| "cacheKeyName TransferProxyContract = ''Vault''"
| "cacheKeyName RebalanceAuctionModuleContract = ''RebalanceAuctionModule''"
| "cacheKeyName KyberNetworkWrapperContract = ''KyberNetworkWrapper''"
| "cacheKeyName RebalancingSetExchangeIssuanceModuleContract =
     ''RebalancingSetExchangeIssuanceModule''"
| "cacheKeyName RebalancingSetIssuanceModuleContract = ''RebalancingSetIssuanceModule''"
| "cacheKeyName AuthorizableContract = ''Authorizable''"
| "cacheKeyName TimeLockUpgradeContract = ''TimeLockUpgrade''"
| "cacheKeyName WhiteListContract = ''WhiteList''"
| "cacheKeyName ExchangeIssuanceModuleContract = ''ExchangeIssuanceModule''"
| "cacheKeyName MedianContract = ''Medianizer''"
| "cacheKeyName ProtocolViewerContract = ''ProtocolViewer''"

definition cacheKeyOf :: "contractClass \<Rightarrow> address \<Rightarrow> string" where
  "cacheKeyOf X addr = cacheKeyName X @ ''_'' @ addr"

text \<open>
  What holds of a wrapper that only its loaders have written to: every cached object was
  constructed for this wrapper, and no object is stored under two keys.
\<close>

definition cacheInvariant :: "protocolContractWrapper \<Rightarrow> bool" where
  "cacheInvariant w =
     ((\<forall>k h. cache w k = Some h \<longrightarrow> ref h < handlesCreated w) \<and>
      (\<forall>k k' h h'. cache w k = Some h \<and> cache w k' = Some h' \<and> ref h = ref h' \<longrightarrow> k = k'))"

section \<open>ProtocolViewerWrapper\<close>

text \<open>
  The two batch reads of the ProtocolViewer contract. \<^verbatim>\<open>callAsync\<close> is generated
  code of \<^verbatim>\<open>set-protocol-contracts\<close> that asks the chain; \<^verbatim>\<open>BigNumber\<close> values
  are integers.
\<close>

datatype viewerCall =
    BatchFetchBalancesOf "address list" address
  | BatchFetchSupplies "address list"

datatype erc20Call =
    BalanceOf address address
  | Name address
  | Symbol address
  | TotalSupply address
  | Decimals address
  | Allowance address address address
  | Transfer address address int txObject
  | TransferFrom address address address int txObject
  | Approve address address int txObject

datatype response =
    BigNumberResult int
  | BigNumberArrayResult "int list"
  | StringResult string

text \<open>
  Everything outside this repository that a call reaches, as parameters: the contract
  constructors, \<^verbatim>\<open>callAsync\<close> on a ProtocolViewer contract object, and the methods
  of \<^verbatim>\<open>ERC20Wrapper\<close> (a class of the repository that is not among the sources;
  every use of it is one awaited method call whose result is returned as it is).
\<close>

record network =
  contractAt :: atFn
  callAsync :: "contractHandle \<Rightarrow> viewerCall \<Rightarrow> error + int list"
  erc20Wrapper :: "erc20Call \<Rightarrow> error + response"

text \<open>
  The wrapper's fields \<^verbatim>\<open>protocolViewerAddress\<close> and \<^verbatim>\<open>contracts\<close>, and a record
  of the calls it has sent to the chain, oldest first.
\<close>

record protocolViewerWrapper =
  protocolViewerAddress :: address
  contracts :: protocolContractWrapper
  viewerCallsIssued :: "(contractHandle \<times> viewerCall) list"

definition newProtocolViewerWrapper :: "address \<Rightarrow> protocolViewerWrapper" where
  "newProtocolViewerWrapper addr =
     \<lparr>protocolViewerAddress = addr, contracts = newProtocolContractWrapper,
      viewerCallsIssued = []\<rparr>"

text \<open>
  \<^verbatim>\<open>
    const protocolViewerInstance = await this.contracts.loadProtocolViewerContract(
      this.protocolViewerAddress
    );
    return await protocolViewerInstance.batchFetchX.callAsync(...);
  \<close>
\<close>

definition viewerCallAsync ::
  "network \<Rightarrow> viewerCall \<Rightarrow> protocolViewerWrapper \<Rightarrow> (error + int list) \<times> protocolViewerWrapper" where
  "viewerCallAsync net c pv =
     (case loadProtocolViewerContract (contractAt net) (protocolViewerAddress pv) [] (contracts pv) of
        (Inl e, w) \<Rightarrow> (Inl e, pv\<lparr>contracts := w\<rparr>)
      | (Inr protocolViewerInstance, w) \<Rightarrow>
          (callAsync net protocolViewerInstance c,
           pv\<lparr>contracts := w,
              viewerCallsIssued := viewerCallsIssued pv @ [(protocolViewerInstance, c)]\<rparr>))"

definition batchFetchBalancesOf ::
  "network \<Rightarrow> address list \<Rightarrow> address \<Rightarrow> protocolViewerWrapper
    \<Rightarrow> (error + int list) \<times> protocolViewerWrapper" where
  "batchFetchBalancesOf net tokenAddresses owner =
     viewerCallAsync net (BatchFetchBalancesOf tokenAddresses owner)"

definition batchFetchSupplies ::
  "network \<Rightarrow> address list \<Rightarrow> protocolViewerWrapper
    \<Rightarrow> (error + int list) \<times> protocolViewerWrapper" where
  "batchFetchSupplies net tokenAddresses =
     viewerCallAsync net (BatchFetchSupplies tokenAddresses)"

section \<open>ERC20API\<close>

text \<open>
  Modelled from the spec: \<^verbatim>\<open>assert.schema.isValidAddress\<close> belongs to the Assertions
  library, which is not among the sources. The spec (sections 4.2 and 6) says that an
  address-typed argument must match the fixed-length hexadecimal chain-address pattern and
  that a value that does not produces a local validation error naming the argument and the
  offending value; the tests quote the pattern as \<^verbatim>\<open>^0x[0-9a-fA-F]{40}$\<close>. A
  hexadecimal digit is one of the characters of that class.
\<close>

definition isHexDigit :: "char \<Rightarrow> bool" where
  "isHexDigit c = (c \<in> set ''0123456789abcdefABCDEF'')"

text \<open>
  Modelled from the spec: the address pattern of the absent schema, as the tests quote it:
  \<^verbatim>\<open>0x\<close> followed by forty hexadecimal digits, and nothing else.
\<close>

definition matchesAddressPattern :: "string \<Rightarrow> bool" where
  "matchesAddressPattern s =
     (length s = 42 \<and> take 2 s = ''0x'' \<and> list_all isHexDigit (drop 2 s))"

text \<open>
  Modelled from the spec: \<^verbatim>\<open>assert.schema.isValidAddress(variableName, value)\<close> of the
  absent Assertions library: it returns when the value matches the pattern and throws the
  validation error naming the argument and the offending value when it does not.
\<close>

definition isValidAddress :: "string \<Rightarrow> address \<Rightarrow> error + unit" where
  "isValidAddress variableName value =
     (if matchesAddressPattern value then Inr ()
      else Inl (SchemaValidationError variableName value))"

text \<open>Statements in sequence: the first one that throws ends the function.\<close>

definition andThen :: "error + unit \<Rightarrow> error + 'a \<Rightarrow> error + 'a" where
  "andThen first rest = (case first of Inl e \<Rightarrow> Inl e | Inr _ \<Rightarrow> rest)"

text \<open>\<^verbatim>\<open>tokenAddresses.forEach(tokenAddress => isValidAddress('tokenAddress', tokenAddress))\<close>\<close>

fun forEachValidAddress :: "string \<Rightarrow> address list \<Rightarrow> error + unit" where
  "forEachValidAddress variableName [] = Inr ()"
| "forEachValidAddress variableName (a # as) =
     andThen (isValidAddress variableName a) (forEachValidAddress variableName as)"

definition assertGetBalanceOf :: "address \<Rightarrow> address \<Rightarrow> error + unit" where
  "assertGetBalanceOf tokenAddress userAddress =
     andThen (isValidAddress ''tokenAddress'' tokenAddress)
       (isValidAddress ''userAddress'' userAddress)"

definition assertGetBalancesOf :: "address list \<Rightarrow> address \<Rightarrow> error + unit" where
  "assertGetBalancesOf tokenAddresses userAddress =
     andThen (isValidAddress ''userAddress'' userAddress)
       (forEachValidAddress ''tokenAddress'' tokenAddresses)"

definition assertGetAllowance :: "address \<Rightarrow> address \<Rightarrow> address \<Rightarrow> error + unit" where
  "assertGetAllowance tokenAddress ownerAddress spenderAddress =
     andThen (isValidAddress ''tokenAddress'' tokenAddress)
       (andThen (isValidAddress ''ownerAddress'' ownerAddress)
          (isValidAddress ''spenderAddress'' spenderAddress))"

definition assertTransfer :: "address \<Rightarrow> address \<Rightarrow> error + unit" where
  "assertTransfer tokenAddress to =
     andThen (isValidAddress ''tokenAddress'' tokenAddress) (isValidAddress ''to'' to)"

definition assertTransferFrom :: "address \<Rightarrow> address \<Rightarrow> address \<Rightarrow> error + unit" where
  "assertTransferFrom tokenAddress from to =
     andThen (isValidAddress ''tokenAddress'' tokenAddress)
       (andThen (isValidAddress ''from'' from) (isValidAddress ''to'' to))"

definition assertApprove :: "address \<Rightarrow> address \<Rightarrow> error + unit" where
  "assertApprove tokenAddress spenderAddress =
     andThen (isValidAddress ''tokenAddress'' tokenAddress)
       (isValidAddress ''spenderAddress'' spenderAddress)"

definition assertGetTotalSuppliesAsync :: "address list \<Rightarrow> error + unit" where
  "assertGetTotalSuppliesAsync tokenAddresses = forEachValidAddress ''tokenAddress'' tokenAddresses"

text \<open>
  The API object: its \<^verbatim>\<open>protocolViewerWrapper\<close>, and a record of the calls it has made
  on its \<^verbatim>\<open>erc20Wrapper\<close>, oldest first.
\<close>

record erc20API =
  viewerWrapper :: protocolViewerWrapper
  erc20CallsIssued :: "erc20Call list"

definition newERC20API :: "address \<Rightarrow> erc20API" where
  "newERC20API protocolViewerAddr =
     \<lparr>viewerWrapper = newProtocolViewerWrapper protocolViewerAddr, erc20CallsIssued = []\<rparr>"

text \<open>\<^verbatim>\<open>return await this.erc20Wrapper.m(...)\<close>\<close>

definition viaErc20Wrapper ::
  "network \<Rightarrow> erc20Call \<Rightarrow> erc20API \<Rightarrow> (error + response) \<times> erc20API" where
  "viaErc20Wrapper net c api =
     (erc20Wrapper net c, api\<lparr>erc20CallsIssued := erc20CallsIssued api @ [c]\<rparr>)"

text \<open>\<^verbatim>\<open>return await this.protocolViewerWrapper.m(...)\<close>\<close>

definition viaProtocolViewerWrapper ::
  "(protocolViewerWrapper \<Rightarrow> (error + int list) \<times> protocolViewerWrapper) \<Rightarrow> erc20API
    \<Rightarrow> (error + int list) \<times> erc20API" where
  "viaProtocolViewerWrapper m api =
     (case m (viewerWrapper api) of (r, pv) \<Rightarrow> (r, api\<lparr>viewerWrapper := pv\<rparr>))"

text \<open>A method body: the assertions, then the one awaited call.\<close>

definition guarded :: "error + unit \<Rightarrow> ('s \<Rightarrow> (error + 'a) \<times> 's) \<Rightarrow> 's \<Rightarrow> (error + 'a) \<times> 's" where
  "guarded assertion call api =
     (case assertion of Inl e \<Rightarrow> (Inl e, api) | Inr _ \<Rightarrow> call api)"

definition getBalanceOfAsync where
  "getBalanceOfAsync net tokenAddress userAddress =
     guarded (assertGetBalanceOf tokenAddress userAddress)
       (viaErc20Wrapper net (BalanceOf tokenAddress userAddress))"

definition getBalancesOfAsync where
  "getBalancesOfAsync net tokenAddresses userAddress =
     guarded (assertGetBalancesOf tokenAddresses userAddress)
       (viaProtocolViewerWrapper (batchFetchBalancesOf net tokenAddresses userAddress))"

definition getNameAsync where
  "getNameAsync net tokenAddress =
     guarded (isValidAddress ''tokenAddress'' tokenAddress)
       (viaErc20Wrapper net (Name tokenAddress))"

definition getSymbolAsync where
  "getSymbolAsync net tokenAddress =
     guarded (isValidAddress ''tokenAddress'' tokenAddress)
       (viaErc20Wrapper net (Symbol tokenAddress))"

definition getTotalSupplyAsync where
  "getTotalSupplyAsync net tokenAddress =
     guarded (isValidAddress ''tokenAddress'' tokenAddress)
       (viaErc20Wrapper net (TotalSupply tokenAddress))"

definition getTotalSuppliesAsync where
  "getTotalSuppliesAsync net tokenAddresses =
     guarded (assertGetTotalSuppliesAsync tokenAddresses)
       (viaProtocolViewerWrapper (batchFetchSupplies net tokenAddresses))"

definition getDecimalsAsync where
  "getDecimalsAsync net tokenAddress =
     guarded (isValidAddress ''tokenAddress'' tokenAddress)
       (viaErc20Wrapper net (Decimals tokenAddress))"

definition getAllowanceAsync where
  "getAllowanceAsync net tokenAddress ownerAddress spenderAddress =
     guarded (assertGetAllowance tokenAddress ownerAddress spenderAddress)
       (viaErc20Wrapper net (Allowance tokenAddress ownerAddress spenderAddress))"

definition transferAsync where
  "transferAsync net tokenAddress to value txOpts =
     guarded (assertTransfer tokenAddress to)
       (viaErc20Wrapper net (Transfer tokenAddress to value txOpts))"

definition transferFromAsync where
  "transferFromAsync net tokenAddress from to value txOpts =
     guarded (assertTransferFrom tokenAddress from to)
       (viaErc20Wrapper net (TransferFrom tokenAddress from to value txOpts))"

definition approveAsync where
  "approveAsync net tokenAddress spenderAddress value txOpts =
     guarded (assertApprove tokenAddress spenderAddress)
       (viaErc20Wrapper net (Approve tokenAddress spenderAddress value txOpts))"

text \<open>
  The public methods of the class as one operation on requests, so that a statement can
  range over all of them. The batch reads return \<^verbatim>\<open>BigNumber[]\<close>, every other method
  returns what \<^verbatim>\<open>erc20Wrapper\<close> returned.
\<close>

datatype erc20Request =
    GetBalanceOf address address
  | GetBalancesOf "address list" address
  | GetName address
  | GetSymbol address
  | GetTotalSupply address
  | GetTotalSupplies "address list"
  | GetDecimals address
  | GetAllowance address address address
  | DoTransfer address address int txObject
  | DoTransferFrom address address address int txObject
  | DoApprove address address int txObject

definition asArrayResult :: "(error + int list) \<times> erc20API \<Rightarrow> (error + response) \<times> erc20API" where
  "asArrayResult out =
     (case out of (Inl e, api) \<Rightarrow> (Inl e, api) | (Inr xs, api) \<Rightarrow> (Inr (BigNumberArrayResult xs), api))"

fun erc20API_call :: "network \<Rightarrow> erc20Request \<Rightarrow> erc20API \<Rightarrow> (error + response) \<times> erc20API" where
  "erc20API_call net (GetBalanceOf t u) api = getBalanceOfAsync net t u api"
| "erc20API_call net (GetBalancesOf ts u) api = asArrayResult (getBalancesOfAsync net ts u api)"
| "erc20API_call net (GetName t) api = getNameAsync net t api"
| "erc20API_call net (GetSymbol t) api = getSymbolAsync net t api"
| "erc20API_call net (GetTotalSupply t) api = getTotalSupplyAsync net t api"
| "erc20API_call net (GetTotalSupplies ts) api = asArrayResult (getTotalSuppliesAsync net ts api)"
| "erc20API_call net (GetDecimals t) api = getDecimalsAsync net t api"
| "erc20API_call net (GetAllowance t ow sp) api = getAllowanceAsync net t ow sp api"
| "erc20API_call net (DoTransfer t to v tx) api = transferAsync net t to v tx api"
| "erc20API_call net (DoTransferFrom t fr to v tx) api = transferFromAsync net t fr to v tx api"
| "erc20API_call net (DoApprove t sp v tx) api = approveAsync net t sp v tx api"

text \<open>
  The arguments of a request whose TypeScript type is \<^verbatim>\<open>Address\<close> or \<^verbatim>\<open>Address[]\<close>,
  each with the name the method's assertion gives it, in the order the method asserts them.
\<close>

fun addressArguments :: "erc20Request \<Rightarrow> (string \<times> address) list" where
  "addressArguments (GetBalanceOf t u) = [(''tokenAddress'', t), (''userAddress'', u)]"
| "addressArguments (GetBalancesOf ts u) =
     (''userAddress'', u) # map (Pair ''tokenAddress'') ts"
| "addressArguments (GetName t) = [(''tokenAddress'', t)]"
| "addressArguments (GetSymbol t) = [(''tokenAddress'', t)]"
| "addressArguments (GetTotalSupply t) = [(''tokenAddress'', t)]"
| "addressArguments (GetTotalSupplies ts) = map (Pair ''tokenAddress'') ts"
| "addressArguments (GetDecimals t) = [(''tokenAddress'', t)]"
| "addressArguments (GetAllowance t ow sp) =
     [(''tokenAddress'', t), (''ownerAddress'', ow), (''spenderAddress'', sp)]"
| "addressArguments (DoTransfer t to v tx) = [(''tokenAddress'', t), (''to'', to)]"
| "addressArguments (DoTransferFrom t fr to v tx) =
     [(''tokenAddress'', t), (''from'', fr), (''to'', to)]"
| "addressArguments (DoApprove t sp v tx) = [(''tokenAddress'', t), (''spenderAddress'', sp)]"

text \<open>The first address argument, in that order, that does not match the pattern.\<close>

fun firstMalformed :: "(string \<times> address) list \<Rightarrow> (string \<times> address) option" where
  "firstMalformed [] = None"
| "firstMalformed ((n, v) # rest) =
     (if matchesAddressPattern v then firstMalformed rest else Some (n, v))"

text \<open>
  What the other side answers to the one interaction a request leads to once its
  assertions have passed: the awaited \<^verbatim>\<open>erc20Wrapper\<close> method, or the construction of
  the ProtocolViewer contract object followed by \<^verbatim>\<open>callAsync\<close> on it.
\<close>

definition viewerAnswer :: "network \<Rightarrow> viewerCall \<Rightarrow> protocolViewerWrapper \<Rightarrow> error + int list" where
  "viewerAnswer net c pv =
     (case fst (loadProtocolViewerContract (contractAt net) (protocolViewerAddress pv) []
                 (contracts pv)) of
        Inl e \<Rightarrow> Inl e
      | Inr h \<Rightarrow> callAsync net h c)"


section \<open>RebalancingAPI and RebalancingManagerAPI\<close>

text \<open>
  Modelled from the spec: the classes \<^verbatim>\<open>RebalancingAPI\<close> and \<^verbatim>\<open>RebalancingManagerAPI\<close>
  are not among the sources, only their tests are. The states of a rebalancing set token
  are the four that the spec's state machine note names; the tests read them as the
  strings below.
\<close>

datatype rebalanceState = Default | Proposal | Rebalance | Drawdown

fun stateName :: "rebalanceState \<Rightarrow> string" where
  "stateName Default = ''Default''"
| "stateName Proposal = ''Proposal''"
| "stateName Rebalance = ''Rebalance''"
| "stateName Drawdown = ''Drawdown''"

text \<open>
  Modelled from the spec: the state-gated operations of \<^verbatim>\<open>RebalancingAPI\<close>
  (\<^verbatim>\<open>proposeAsync\<close>, \<^verbatim>\<open>startRebalanceAsync\<close>, \<^verbatim>\<open>settleRebalanceAsync\<close>,
  \<^verbatim>\<open>bidAsync\<close>, \<^verbatim>\<open>endFailedAuctionAsync\<close>, \<^verbatim>\<open>redeemFromFailedRebalanceAsync\<close>,
  \<^verbatim>\<open>getBidPriceAsync\<close>) and \<^verbatim>\<open>proposeAsync\<close> of \<^verbatim>\<open>RebalancingManagerAPI\<close>.
\<close>

datatype gatedOperation =
    ProposeOp
  | StartRebalanceOp
  | SettleRebalanceOp
  | BidOp
  | EndFailedAuctionOp
  | RedeemFromFailedRebalanceOp
  | GetBidPriceOp
  | ManagerProposeOp

text \<open>
  Modelled from the spec: section 8 says that a state-gated operation invoked while the
  token is in the wrong state fails with an error string naming the token's address and
  the required state. The strings are the two that the tests of the absent classes
  expect: "must be in S state to call that function." for a state S, and the message of
  \<^verbatim>\<open>proposeAsync\<close> for a token that is being rebalanced.
\<close>

definition incorrectStateMessage :: "address \<Rightarrow> rebalanceState \<Rightarrow> string" where
  "incorrectStateMessage addr required =
     ''Rebalancing token at '' @ addr @ '' must be in '' @ stateName required @
     '' state to call that function.''"

definition rebalanceInProgressMessage :: "address \<Rightarrow> string" where
  "rebalanceInProgressMessage addr =
     ''Rebalancing token at '' @ addr @ '' is currently in rebalancing state.'' @
     '' Issue, Redeem, and propose functionality is not available during this time''"

text \<open>
  Modelled from the spec: the states in which an operation is accepted, as the tests of
  the absent classes show them. \<^verbatim>\<open>startRebalanceAsync\<close> wants Proposal,
  \<^verbatim>\<open>settleRebalanceAsync\<close>, \<^verbatim>\<open>bidAsync\<close>, \<^verbatim>\<open>endFailedAuctionAsync\<close> and
  \<^verbatim>\<open>getBidPriceAsync\<close> want Rebalance, \<^verbatim>\<open>redeemFromFailedRebalanceAsync\<close> wants
  Drawdown, the manager's \<^verbatim>\<open>proposeAsync\<close> wants Default, and \<^verbatim>\<open>proposeAsync\<close> of
  \<^verbatim>\<open>RebalancingAPI\<close> is rejected for its state in Rebalance only.
\<close>

fun permits :: "gatedOperation \<Rightarrow> rebalanceState \<Rightarrow> bool" where
  "permits ProposeOp s = (s \<noteq> Rebalance)"
| "permits StartRebalanceOp s = (s = Proposal)"
| "permits SettleRebalanceOp s = (s = Rebalance)"
| "permits BidOp s = (s = Rebalance)"
| "permits EndFailedAuctionOp s = (s = Rebalance)"
| "permits RedeemFromFailedRebalanceOp s = (s = Drawdown)"
| "permits GetBidPriceOp s = (s = Rebalance)"
| "permits ManagerProposeOp s = (s = Default)"

text \<open>
  Modelled from the spec: the state gate of the absent classes, with the message each
  operation's test expects. \<open>None\<close> lets the operation proceed, \<open>Some m\<close> rejects it
  with \<open>m\<close>.
\<close>

fun stateGate :: "gatedOperation \<Rightarrow> address \<Rightarrow> rebalanceState \<Rightarrow> string option" where
  "stateGate ProposeOp addr s =
     (if s = Rebalance then Some (rebalanceInProgressMessage addr) else None)"
| "stateGate StartRebalanceOp addr s =
     (if s = Proposal then None else Some (incorrectStateMessage addr Proposal))"
| "stateGate SettleRebalanceOp addr s =
     (if s = Rebalance then None else Some (incorrectStateMessage addr Rebalance))"
| "stateGate BidOp addr s =
     (if s = Rebalance then None else Some (incorrectStateMessage addr Rebalance))"
| "stateGate EndFailedAuctionOp addr s =
     (if s = Rebalance then None else Some (incorrectStateMessage addr Rebalance))"
| "stateGate RedeemFromFailedRebalanceOp addr s =
     (if s = Drawdown then None else Some (incorrectStateMessage addr Drawdown))"
| "stateGate GetBidPriceOp addr s =
     (if s = Rebalance then None else Some (incorrectStateMessage addr Rebalance))"
| "stateGate ManagerProposeOp addr s =
     (if s = Default then None else Some (incorrectStateMessage addr Default))"

text \<open>
  Modelled from the spec: the result type \<^verbatim>\<open>TokenFlowsDetails\<close> of
  \<^verbatim>\<open>getBidPriceAsync\<close> (declared in a file that is not among the sources), as the tests
  read it: the fields \<^verbatim>\<open>inflow\<close> and \<^verbatim>\<open>outflow\<close>, each a list of components with
  the fields \<^verbatim>\<open>address\<close> and \<^verbatim>\<open>unit\<close>.
\<close>

record tokenFlowComponent =
  address :: address
  unit :: int

record tokenFlowsDetails =
  inflow :: "tokenFlowComponent list"
  outflow :: "tokenFlowComponent list"

text \<open>
  Modelled from the spec: the reshaping step of \<^verbatim>\<open>getBidPriceAsync\<close>, which is not
  among the sources. Section 4.2 (4) of the spec says that a read reshapes the raw tuple
  output into a named result object and omits zero-unit token flows from the
  inflow/outflow view. A raw unit array is indexed like the token's combined token array.
\<close>

definition tokenFlowComponents :: "address list \<Rightarrow> int list \<Rightarrow> tokenFlowComponent list" where
  "tokenFlowComponents tokenAddresses units =
     filter (\<lambda>c. unit c \<noteq> 0)
       (map (\<lambda>(a, u). \<lparr>address = a, unit = u\<rparr>) (zip tokenAddresses units))"

text \<open>
  Modelled from the spec: \<^verbatim>\<open>getBidPriceAsync\<close> of \<^verbatim>\<open>RebalancingAPI\<close>, which is not
  among the sources: the state gate, then the reshaping of the raw pair of unit arrays
  that \<^verbatim>\<open>getBidPrice\<close> of the token returned for the bid quantity.
\<close>

definition getBidPriceAsync ::
  "address \<Rightarrow> rebalanceState \<Rightarrow> address list \<Rightarrow> int list \<times> int list
    \<Rightarrow> string + tokenFlowsDetails" where
  "getBidPriceAsync rebalancingSetTokenAddress state combinedTokenArray raw =
     (case stateGate GetBidPriceOp rebalancingSetTokenAddress state of
        Some m \<Rightarrow> Inl m
      | None \<Rightarrow>
          Inr \<lparr>inflow = tokenFlowComponents combinedTokenArray (fst raw),
               outflow = tokenFlowComponents combinedTokenArray (snd raw)\<rparr>)"

text \<open>\<^verbatim>\<open>BigNumber.toString()\<close> of a natural number: its decimal digits.\<close>

fun toString :: "nat \<Rightarrow> string" where
  "toString n =
     (if n < 10 then [''0123456789'' ! n]
      else toString (n div 10) @ [''0123456789'' ! (n mod 10)])"

text \<open>
  Modelled from the spec: the error string of the price trigger of \<^verbatim>\<open>proposeAsync\<close> of
  \<^verbatim>\<open>RebalancingManagerAPI\<close>, which is not among the sources. Section 8 of the spec says
  that the string contains the current computed percentage and the configured bound
  values; the wording is the one the tests expect.
\<close>

definition allocationBoundsMessage :: "string \<Rightarrow> nat \<Rightarrow> nat \<Rightarrow> nat \<Rightarrow> string" where
  "allocationBoundsMessage tokenName allocation lower upper =
     ''Current '' @ tokenName @ '' allocation '' @ toString allocation @
     ''% must be outside allocation bounds '' @ toString lower @ '' and '' @
     toString upper @ ''.''"

text \<open>
  Modelled from the spec: the price trigger of \<^verbatim>\<open>proposeAsync\<close> of
  \<^verbatim>\<open>RebalancingManagerAPI\<close>, which is not among the sources. Section 8 of the spec says
  that a proposal made while the tracked allocation percentage is within the configured
  bounds fails. With the bounds 48 and 52 the tests expect the rejection where the BTC
  share of the set's value is 49.92 percent (reported as 49) and expect the proposal to go
  through where it is 52.37 percent, so the percentage is cut to a whole number and the
  upper bound itself counts as outside. The percentage is an argument here.
\<close>

definition priceTriggerGate :: "string \<Rightarrow> nat \<Rightarrow> nat \<Rightarrow> nat \<Rightarrow> string option" where
  "priceTriggerGate tokenName allocation lower upper =
     (if lower \<le> allocation \<and> allocation < upper
      then Some (allocationBoundsMessage tokenName allocation lower upper)
      else None)"




section \<open>Concrete surroundings for the examples\<close>

text \<open>
  Two addresses that match the pattern, a chain on which every constructor and call
  succeeds and the token at \<open>addressB\<close> has supply and balance zero, and a chain on
  which every call reverts.
\<close>

definition addressA :: address where
  "addressA = ''0x00000000000000000000000000000000000000aA''"

definition addressB :: address where
  "addressB = ''0x00000000000000000000000000000000000000bB''"

definition exampleAmount :: "address \<Rightarrow> int" where
  "exampleAmount a = (if a = addressB then 0 else 5)"

definition quietNetwork :: network where
  "quietNetwork =
     \<lparr>contractAt = (\<lambda>X a opts. None),
      callAsync = (\<lambda>h c. case c of
                      BatchFetchBalancesOf ts u \<Rightarrow> Inr (map exampleAmount ts)
                    | BatchFetchSupplies ts \<Rightarrow> Inr (map exampleAmount ts)),
      erc20Wrapper = (\<lambda>c. Inr (BigNumberResult 0))\<rparr>"




text \<open>
  The first contract object a new wrapper constructs for \<open>addressA\<close>, and the wrapper
  that holds nothing but this object under a given key.
\<close>

definition firstHandle :: "contractClass \<Rightarrow> contractHandle" where
  "firstHandle X = \<lparr>ref = 0, instanceOf = X, contractAddress = addressA, defaults = []\<rparr>"

definition wrapperHolding :: "string \<Rightarrow> contractHandle \<Rightarrow> protocolContractWrapper" where
  "wrapperHolding cacheKey h = \<lparr>cache = [cacheKey \<mapsto> h], handlesCreated = 1\<rparr>"

section \<open>Facts about the resolver\<close>

declare toString.simps [simp del]

lemmas loader_defs =
  loadCoreAsync_def loadSetTokenAsync_def loadRebalancingSetTokenAsync_def
  loadERC20TokenAsync_def loadVaultAsync_def loadTransferProxyAsync_def
  loadRebalanceAuctionModuleAsync_def loadKyberNetworkWrapperAsync_def
  loadRebalancingSetExchangeIssuanceModuleAsync_def loadRebalancingSetIssuanceModuleAsync_def
  loadAuthorizableAsync_def loadTimeLockUpgradeAsync_def loadWhitelistAsync_def
  loadExchangeIssuanceModuleAsync_def loadMedianizerContract_def loadProtocolViewerContract_def

lemma loadCached_hit_after:
  "loadCached at1 name X a o1 w = (Inr h, w') \<Longrightarrow>
   loadCached at2 name Y a o2 w' = (Inr h, w')"
  by (auto simp: loadCached_def Let_def split: option.splits)

lemma loadCached_succeeds:
  "at X a opts = None \<Longrightarrow> \<exists>h. fst (loadCached at name X a opts w) = Inr h"
  by (auto simp: loadCached_def Let_def split: option.splits)

lemma resolve_eq_loadCached: "resolve at X = loadCached at (cacheKeyName X) X"
  by (cases X) (simp_all add: loader_defs)

text \<open>
  C2: two successive calls of a loader with the same contract class and address return
  the same contract object. When the first call returns the object \<open>h\<close> and leaves the
  wrapper in the state \<open>w'\<close>, the second call returns \<open>h\<close> itself (the same reference) and
  leaves \<open>w'\<close> as it is: it is served from the cache, constructs nothing and stores nothing,
  whatever options it is given and whatever the constructor would answer by then.
\<close>

theorem resolve_twice_same_handle:
  assumes "resolve at1 X a o1 w = (Inr h, w')"
  shows "resolve at2 X a o2 w' = (Inr h, w')"
  using assms unfolding resolve_eq_loadCached by (rule loadCached_hit_after)

theorem resolve_twice_same_handle_witness:
  "resolve (\<lambda>X a opts. None) TransferProxyContract addressA [] newProtocolContractWrapper =
     (Inr (firstHandle TransferProxyContract),
      wrapperHolding (''Vault_'' @ addressA) (firstHandle TransferProxyContract))
   \<and> resolve (\<lambda>X a opts. Some (ExternalRejection ''unreachable'')) TransferProxyContract addressA
       [(''from'', addressB)]
       (wrapperHolding (''Vault_'' @ addressA) (firstHandle TransferProxyContract)) =
     (Inr (firstHandle TransferProxyContract),
      wrapperHolding (''Vault_'' @ addressA) (firstHandle TransferProxyContract))"
proof -
  have first:
    "resolve (\<lambda>X a opts. None) TransferProxyContract addressA [] newProtocolContractWrapper =
       (Inr (firstHandle TransferProxyContract),
        wrapperHolding (''Vault_'' @ addressA) (firstHandle TransferProxyContract))"
    by (simp add: loadTransferProxyAsync_def loadCached_def newProtocolContractWrapper_def
          firstHandle_def wrapperHolding_def Let_def)
  from first resolve_twice_same_handle [OF first] show ?thesis by blast
qed

lemma loadCached_Inl_iff:
  "fst (loadCached at name X a opts w) = Inl e \<longleftrightarrow>
     cache w (name @ ''_'' @ a) = None \<and> at X a opts = Some e"
  by (auto simp: loadCached_def Let_def split: option.splits)

text \<open>
  C6, as amended: a loader raises no error of its own. For every contract class, every
  string given as the address (the loader checks no format and looks no contract up) and
  every options object: when the key is in the cache, the call returns the cached object
  and leaves the wrapper as it is; when it is not and the awaited constructor \<^verbatim>\<open>X.at\<close>
  of \<^verbatim>\<open>set-protocol-contracts\<close> returns, the call returns the new object (of that
  class, for that address and those options), stored under the key; when it is not and the
  constructor rejects, the call fails with the constructor's error, unchanged, and stores
  nothing. So the call fails exactly when the key is not cached and the constructor rejects.
\<close>

theorem resolve_raises_only_what_at_raises:
  "(\<forall>h. cache w (cacheKeyOf X a) = Some h \<longrightarrow> resolve at X a opts w = (Inr h, w)) \<and>
   (\<forall>e. cache w (cacheKeyOf X a) = None \<and> at X a opts = Some e \<longrightarrow>
        resolve at X a opts w = (Inl e, w)) \<and>
   (cache w (cacheKeyOf X a) = None \<and> at X a opts = None \<longrightarrow>
      resolve at X a opts w =
        (Inr \<lparr>ref = handlesCreated w, instanceOf = X, contractAddress = a, defaults = opts\<rparr>,
         w\<lparr>cache := (cache w)(cacheKeyOf X a \<mapsto>
                 \<lparr>ref = handlesCreated w, instanceOf = X, contractAddress = a,
                  defaults = opts\<rparr>),
           handlesCreated := Suc (handlesCreated w)\<rparr>)) \<and>
   (\<forall>e. fst (resolve at X a opts w) = Inl e \<longleftrightarrow>
        cache w (cacheKeyOf X a) = None \<and> at X a opts = Some e)"
  by (simp add: resolve_eq_loadCached loadCached_Inl_iff cacheKeyOf_def)
     (simp add: loadCached_def Let_def)

theorem resolve_raises_only_what_at_raises_witness:
  "resolve (\<lambda>X a opts. None) CoreContract ''not an address'' [] newProtocolContractWrapper =
     (Inr \<lparr>ref = 0, instanceOf = CoreContract, contractAddress = ''not an address'',
           defaults = []\<rparr>,
      \<lparr>cache = [''Core_not an address'' \<mapsto>
                 \<lparr>ref = 0, instanceOf = CoreContract, contractAddress = ''not an address'',
                  defaults = []\<rparr>],
       handlesCreated = 1\<rparr>)
   \<and> resolve (\<lambda>X a opts. Some (ExternalRejection ''no contract at this address''))
       CoreContract addressA [(''from'', addressB)]
       (wrapperHolding (''Core_'' @ addressA) (firstHandle CoreContract)) =
     (Inr (firstHandle CoreContract),
      wrapperHolding (''Core_'' @ addressA) (firstHandle CoreContract))
   \<and> resolve (\<lambda>X a opts. Some (ExternalRejection ''no contract at this address''))
       CoreContract addressA [] newProtocolContractWrapper =
     (Inl (ExternalRejection ''no contract at this address''), newProtocolContractWrapper)"
proof -
  have miss: "cache newProtocolContractWrapper (cacheKeyOf CoreContract k) = None" for k
    by (simp add: newProtocolContractWrapper_def)
  have hit: "cache (wrapperHolding (''Core_'' @ addressA) (firstHandle CoreContract))
               (cacheKeyOf CoreContract addressA) = Some (firstHandle CoreContract)"
    by (simp add: wrapperHolding_def cacheKeyOf_def)
  have 1: "resolve (\<lambda>X a opts. None) CoreContract ''not an address'' []
             newProtocolContractWrapper =
           (Inr \<lparr>ref = handlesCreated newProtocolContractWrapper, instanceOf = CoreContract,
                 contractAddress = ''not an address'', defaults = []\<rparr>,
            newProtocolContractWrapper
              \<lparr>cache := (cache newProtocolContractWrapper)
                 (cacheKeyOf CoreContract ''not an address'' \<mapsto>
                    \<lparr>ref = handlesCreated newProtocolContractWrapper,
                     instanceOf = CoreContract, contractAddress = ''not an address'',
                     defaults = []\<rparr>),
               handlesCreated := Suc (handlesCreated newProtocolContractWrapper)\<rparr>)"
    using resolve_raises_only_what_at_raises
      [of newProtocolContractWrapper CoreContract "''not an address''" "\<lambda>X a opts. None" "[]"]
      miss
    by blast
  have 2: "resolve (\<lambda>X a opts. Some (ExternalRejection ''no contract at this address''))
             CoreContract addressA [(''from'', addressB)]
             (wrapperHolding (''Core_'' @ addressA) (firstHandle CoreContract)) =
           (Inr (firstHandle CoreContract),
            wrapperHolding (''Core_'' @ addressA) (firstHandle CoreContract))"
    using resolve_raises_only_what_at_raises
      [of "wrapperHolding (''Core_'' @ addressA) (firstHandle CoreContract)" CoreContract
          addressA "\<lambda>X a opts. Some (ExternalRejection ''no contract at this address'')"
          "[(''from'', addressB)]"]
      hit
    by blast
  have 3: "resolve (\<lambda>X a opts. Some (ExternalRejection ''no contract at this address''))
             CoreContract addressA [] newProtocolContractWrapper =
           (Inl (ExternalRejection ''no contract at this address''), newProtocolContractWrapper)"
    using resolve_raises_only_what_at_raises
      [of newProtocolContractWrapper CoreContract addressA
          "\<lambda>X a opts. Some (ExternalRejection ''no contract at this address'')" "[]"]
      miss
    by blast
  from 1 have fresh: "resolve (\<lambda>X a opts. None) CoreContract ''not an address'' []
             newProtocolContractWrapper =
     (Inr \<lparr>ref = 0, instanceOf = CoreContract, contractAddress = ''not an address'',
           defaults = []\<rparr>,
      \<lparr>cache = [''Core_not an address'' \<mapsto>
                 \<lparr>ref = 0, instanceOf = CoreContract, contractAddress = ''not an address'',
                  defaults = []\<rparr>],
       handlesCreated = 1\<rparr>)"
    by (simp add: newProtocolContractWrapper_def cacheKeyOf_def)
  from fresh 2 3 show ?thesis by blast
qed

text \<open>
  C6 as stated fails: the loader awaits \<^verbatim>\<open>X.at\<close> and catches nothing, so when the
  constructor rejects (here because it finds no contract at the address) the load itself
  fails, before any method is invoked on a contract object.
\<close>

theorem load_passes_constructor_rejection_on:
  "fst (loadCoreAsync (\<lambda>X a opts. Some (ExternalRejection ''no contract at this address''))
          addressA [] newProtocolContractWrapper)
     = Inl (ExternalRejection ''no contract at this address'')"
  by (simp add: loadCoreAsync_def loadCached_def newProtocolContractWrapper_def)

text \<open>
  C1: the cache is to hold one contract object for each pair of contract class and
  address, so that two classes at one address have two objects. On a new wrapper,
  \<^verbatim>\<open>loadVaultAsync\<close> for an address constructs a \<^verbatim>\<open>VaultContract\<close> and stores it under
  the key \<^verbatim>\<open>Vault_<address>\<close>; \<^verbatim>\<open>loadTransferProxyAsync\<close> for the same address then
  finds that key, constructs nothing and returns the \<^verbatim>\<open>VaultContract\<close> object.
\<close>

theorem transferProxy_served_from_vault_entry:
  "loadVaultAsync (\<lambda>X a opts. None) addressA [] newProtocolContractWrapper =
     (Inr (firstHandle VaultContract),
      wrapperHolding (''Vault_'' @ addressA) (firstHandle VaultContract))
   \<and> loadTransferProxyAsync (\<lambda>X a opts. None) addressA []
       (wrapperHolding (''Vault_'' @ addressA) (firstHandle VaultContract)) =
     (Inr (firstHandle VaultContract),
      wrapperHolding (''Vault_'' @ addressA) (firstHandle VaultContract))
   \<and> instanceOf (firstHandle VaultContract) = VaultContract"
  by (simp add: loadVaultAsync_def loadTransferProxyAsync_def loadCached_def
        newProtocolContractWrapper_def firstHandle_def wrapperHolding_def Let_def)

text \<open>
  The same holds at every address and in either order of the two calls, and it is the only
  such pair: the other loaders keep their objects apart.
\<close>

lemma vault_and_transferProxy_share_entry:
  "loadVaultAsync at1 a o1 w = (Inr h, w') \<Longrightarrow>
     loadTransferProxyAsync at2 a o2 w' = (Inr h, w')"
  "loadTransferProxyAsync at1 a o1 w = (Inr h, w') \<Longrightarrow>
     loadVaultAsync at2 a o2 w' = (Inr h, w')"
  unfolding loadVaultAsync_def loadTransferProxyAsync_def
  by (erule loadCached_hit_after)+

lemma cacheKeyName_eq_iff:
  "cacheKeyName X = cacheKeyName Y \<longleftrightarrow>
     X = Y \<or> (X = VaultContract \<and> Y = TransferProxyContract) \<or>
     (X = TransferProxyContract \<and> Y = VaultContract)"
  by (cases X; cases Y; simp)

lemma cacheKeyOf_eq_iff:
  "cacheKeyOf X a = cacheKeyOf Y b \<longleftrightarrow> cacheKeyName X = cacheKeyName Y \<and> a = b"
  unfolding cacheKeyOf_def by (cases X; cases Y; simp)

lemma cacheInvariant_new: "cacheInvariant newProtocolContractWrapper"
  by (simp add: cacheInvariant_def newProtocolContractWrapper_def)

lemma cacheInvariant_loadCached:
  assumes "cacheInvariant w" and "loadCached at name X a opts w = (r, w')"
  shows "cacheInvariant w'"
proof (cases "cache w (name @ ''_'' @ a)")
  case (Some h)
  with assms show ?thesis by (simp add: loadCached_def)
next
  case None
  show ?thesis
  proof (cases "at X a opts")
    case (Some e)
    with None assms show ?thesis by (simp add: loadCached_def)
  next
    case at_ok: None
    let ?h = "\<lparr>ref = handlesCreated w, instanceOf = X, contractAddress = a, defaults = opts\<rparr>"
    from None at_ok assms(2)
    have w': "w' = w\<lparr>cache := (cache w)(name @ ''_'' @ a \<mapsto> ?h),
                      handlesCreated := Suc (handlesCreated w)\<rparr>"
      by (simp add: loadCached_def Let_def)
    from assms(1) have old: "\<And>k h. cache w k = Some h \<Longrightarrow> ref h < handlesCreated w"
      and inj: "\<And>k k' h h'. cache w k = Some h \<Longrightarrow> cache w k' = Some h' \<Longrightarrow>
                  ref h = ref h' \<Longrightarrow> k = k'"
      unfolding cacheInvariant_def by blast+
    show ?thesis
      unfolding cacheInvariant_def w'
      by (auto simp: less_Suc_eq dest: old inj split: if_splits)
  qed
qed

lemma cacheInvariant_resolve:
  "cacheInvariant w \<Longrightarrow> resolve at X a opts w = (r, w') \<Longrightarrow> cacheInvariant w'"
  unfolding resolve_eq_loadCached by (rule cacheInvariant_loadCached)

lemma loadCached_result:
  assumes "loadCached at name X a opts w = (Inr h, w')"
  shows "cache w' (name @ ''_'' @ a) = Some h"
    and "handlesCreated w \<le> handlesCreated w'"
    and "cache w k = Some h' \<Longrightarrow> cache w' k = Some h'"
  using assms by (auto simp: loadCached_def Let_def split: option.splits if_splits)

text \<open>
  Apart from the pair \<^verbatim>\<open>VaultContract\<close> and \<^verbatim>\<open>TransferProxyContract\<close>, the loaders
  of two different classes hand out different objects, also at one address.
\<close>

lemma distinct_keys_distinct_handles:
  assumes inv: "cacheInvariant w"
      and keys: "cacheKeyName X \<noteq> cacheKeyName Y"
      and first: "resolve at1 X a o1 w = (Inr h, w')"
      and second: "resolve at2 Y b o2 w' = (Inr h', w'')"
  shows "ref h \<noteq> ref h'"
proof
  assume eq: "ref h = ref h'"
  have inv'': "cacheInvariant w''"
    using inv first second cacheInvariant_resolve by blast
  from first have 0: "cache w' (cacheKeyName X @ ''_'' @ a) = Some h"
    unfolding resolve_eq_loadCached by (rule loadCached_result(1))
  have 1: "cache w'' (cacheKeyName X @ ''_'' @ a) = Some h"
    using loadCached_result(3) [OF second [unfolded resolve_eq_loadCached] 0] .
  from second have 2: "cache w'' (cacheKeyName Y @ ''_'' @ b) = Some h'"
    unfolding resolve_eq_loadCached by (rule loadCached_result(1))
  from inv'' 1 2 eq have "cacheKeyName X @ ''_'' @ a = cacheKeyName Y @ ''_'' @ b"
    unfolding cacheInvariant_def by blast
  then have "cacheKeyOf X a = cacheKeyOf Y b" by (simp add: cacheKeyOf_def)
  with keys show False by (simp add: cacheKeyOf_eq_iff)
qed

section \<open>Facts about ERC20API\<close>

lemmas method_defs =
  getBalanceOfAsync_def getBalancesOfAsync_def getNameAsync_def getSymbolAsync_def
  getTotalSupplyAsync_def getTotalSuppliesAsync_def getDecimalsAsync_def getAllowanceAsync_def
  transferAsync_def transferFromAsync_def approveAsync_def

lemmas assert_defs =
  assertGetBalanceOf_def assertGetBalancesOf_def assertGetAllowance_def assertTransfer_def
  assertTransferFrom_def assertApprove_def assertGetTotalSuppliesAsync_def

lemma isValidAddress_cases:
  "isValidAddress n v = (if matchesAddressPattern v then Inr () else Inl (SchemaValidationError n v))"
  by (simp add: isValidAddress_def)

lemma forEachValidAddress_firstMalformed:
  "forEachValidAddress n ts =
     (case firstMalformed (map (Pair n) ts) of
        None \<Rightarrow> Inr () | Some (n', v) \<Rightarrow> Inl (SchemaValidationError n' v))"
  by (induction ts) (auto simp: andThen_def isValidAddress_def)


lemma firstMalformed_Some:
  "firstMalformed xs = Some (n, v) \<Longrightarrow> (n, v) \<in> set xs \<and> \<not> matchesAddressPattern v"
  by (induction xs) (auto split: if_splits)

lemma firstMalformed_exists:
  "(n, v) \<in> set xs \<Longrightarrow> \<not> matchesAddressPattern v \<Longrightarrow> \<exists>n' v'. firstMalformed xs = Some (n', v')"
  by (induction xs) auto

lemma call_malformed:
  "firstMalformed (addressArguments r) = Some (n, v) \<Longrightarrow>
   erc20API_call net r api = (Inl (SchemaValidationError n v), api)"
  by (cases r)
     (auto simp: method_defs assert_defs guarded_def andThen_def isValidAddress_def
        asArrayResult_def forEachValidAddress_firstMalformed
        split: if_splits option.splits)

lemma viewerCallAsync_answer:
  "fst (viewerCallAsync net c pv) = viewerAnswer net c pv"
  by (auto simp: viewerCallAsync_def viewerAnswer_def split: prod.splits sum.splits)

lemma viaProtocolViewerWrapper_fst:
  "fst (viaProtocolViewerWrapper m api) = fst (m (viewerWrapper api))"
  by (simp add: viaProtocolViewerWrapper_def split: prod.splits)


lemma guarded_Inr: "guarded (Inr u) call api = call api"
  by (simp add: guarded_def)


lemma addressA_matches: "matchesAddressPattern addressA"
  by (simp add: matchesAddressPattern_def addressA_def isHexDigit_def)

lemma addressB_matches: "matchesAddressPattern addressB"
  by (simp add: matchesAddressPattern_def addressB_def isHexDigit_def)

lemma invalid_does_not_match: "\<not> matchesAddressPattern ''InvalidTokenAddress''"
  by (simp add: matchesAddressPattern_def)

lemma batch_reads_answer:
  "firstMalformed (map (Pair ''tokenAddress'') ts) = None \<Longrightarrow>
   fst (getTotalSuppliesAsync net ts api) = viewerAnswer net (BatchFetchSupplies ts) (viewerWrapper api)"
  "matchesAddressPattern u \<Longrightarrow> firstMalformed (map (Pair ''tokenAddress'') ts) = None \<Longrightarrow>
   fst (getBalancesOfAsync net ts u api) =
     viewerAnswer net (BatchFetchBalancesOf ts u) (viewerWrapper api)"
  by (simp_all add: method_defs assert_defs guarded_def andThen_def isValidAddress_def
        forEachValidAddress_firstMalformed viaProtocolViewerWrapper_fst
        batchFetchBalancesOf_def batchFetchSupplies_def viewerCallAsync_answer)

lemma all_tokens_wellformed:
  "(\<forall>a \<in> set ts. matchesAddressPattern a) \<Longrightarrow> firstMalformed (map (Pair n) ts) = None"
  by (induction ts) auto

text \<open>
  C3: every method of \<^verbatim>\<open>ERC20API\<close> rejects a malformed address before anything is
  sent. If some address argument of a request does not match the address pattern, the call
  fails with the schema validation error of the first malformed argument in the order the
  method asserts them, carrying that argument's name and value; the API object is returned
  as it was (no call on \<^verbatim>\<open>erc20Wrapper\<close>, no lookup in the resolver's cache, no call
  through the ProtocolViewer wrapper), and the outcome is the same on every chain.
\<close>

theorem malformed_address_rejected_locally:
  assumes "(n, v) \<in> set (addressArguments r)" and "\<not> matchesAddressPattern v"
  shows "\<exists>n' v'. firstMalformed (addressArguments r) = Some (n', v') \<and>
           (n', v') \<in> set (addressArguments r) \<and> \<not> matchesAddressPattern v' \<and>
           erc20API_call net r api = (Inl (SchemaValidationError n' v'), api)"
proof -
  from assms obtain n' v' where f: "firstMalformed (addressArguments r) = Some (n', v')"
    using firstMalformed_exists by blast
  with firstMalformed_Some [OF f] call_malformed [OF f] show ?thesis by blast
qed

theorem malformed_address_rejected_locally_witness:
  "erc20API_call quietNetwork (GetBalancesOf [addressA, ''InvalidTokenAddress''] addressB)
     (newERC20API addressA) =
   (Inl (SchemaValidationError ''tokenAddress'' ''InvalidTokenAddress''), newERC20API addressA)"
proof -
  have m: "(''tokenAddress'', ''InvalidTokenAddress'')
             \<in> set (addressArguments (GetBalancesOf [addressA, ''InvalidTokenAddress''] addressB))"
    by simp
  have f: "firstMalformed (addressArguments (GetBalancesOf [addressA, ''InvalidTokenAddress''] addressB))
             = Some (''tokenAddress'', ''InvalidTokenAddress'')"
    by (simp add: addressA_matches addressB_matches invalid_does_not_match)
  from malformed_address_rejected_locally [OF m invalid_does_not_match, of quietNetwork
      "newERC20API addressA"] f
  show ?thesis by auto
qed




text \<open>
  C10: the batch reads \<^verbatim>\<open>getTotalSuppliesAsync\<close> and \<^verbatim>\<open>getBalancesOfAsync\<close> return
  the array the ProtocolViewer contract answered, element for element. When the addresses
  match the pattern and the contract answers with one value for each submitted address, in
  the order submitted, the caller receives exactly that list: one result for each address,
  in the same order, with the zero entries in their places.
\<close>

theorem batch_reads_preserve_alignment:
  assumes "\<forall>a \<in> set tokenAddresses. matchesAddressPattern a"
      and "matchesAddressPattern userAddress"
      and "viewerAnswer net (BatchFetchSupplies tokenAddresses) (viewerWrapper api) =
             Inr (map supplyOf tokenAddresses)"
      and "viewerAnswer net (BatchFetchBalancesOf tokenAddresses userAddress) (viewerWrapper api) =
             Inr (map balanceOf tokenAddresses)"
  shows "fst (getTotalSuppliesAsync net tokenAddresses api) = Inr (map supplyOf tokenAddresses) \<and>
         fst (getBalancesOfAsync net tokenAddresses userAddress api) =
           Inr (map balanceOf tokenAddresses)"
  using assms by (simp add: batch_reads_answer all_tokens_wellformed)

theorem batch_reads_preserve_alignment_witness:
  "fst (getTotalSuppliesAsync quietNetwork [addressA, addressB, addressA] (newERC20API addressA))
     = Inr [5, 0, 5]
   \<and> fst (getBalancesOfAsync quietNetwork [addressA, addressB, addressA] addressA
           (newERC20API addressA))
     = Inr [5, 0, 5]"
proof -
  have v: "\<forall>a \<in> set [addressA, addressB, addressA]. matchesAddressPattern a"
    by (simp add: addressA_matches addressB_matches)
  have s: "viewerAnswer quietNetwork (BatchFetchSupplies [addressA, addressB, addressA])
             (viewerWrapper (newERC20API addressA)) =
           Inr (map exampleAmount [addressA, addressB, addressA])"
    by (simp add: viewerAnswer_def quietNetwork_def newERC20API_def
          newProtocolViewerWrapper_def newProtocolContractWrapper_def
          loadProtocolViewerContract_def loadCached_def Let_def)
  have b: "viewerAnswer quietNetwork (BatchFetchBalancesOf [addressA, addressB, addressA] addressA)
             (viewerWrapper (newERC20API addressA)) =
           Inr (map exampleAmount [addressA, addressB, addressA])"
    by (simp add: viewerAnswer_def quietNetwork_def newERC20API_def
          newProtocolViewerWrapper_def newProtocolContractWrapper_def
          loadProtocolViewerContract_def loadCached_def Let_def)
  have e: "map exampleAmount [addressA, addressB, addressA] = [5, 0, 5]"
    by (simp add: exampleAmount_def addressA_def addressB_def)
  from batch_reads_preserve_alignment [OF v addressA_matches s b] e
  show ?thesis by simp
qed

section \<open>Facts about the rebalancing operations\<close>

lemma nth_filter_map_zip:
  "length xs = length ys \<Longrightarrow>
   filter P (map f (zip xs ys)) =
     map (\<lambda>i. f (xs ! i, ys ! i)) (filter (\<lambda>i. P (f (xs ! i, ys ! i))) [0..<length ys])"
proof -
  assume len: "length xs = length ys"
  have "zip xs ys = map (\<lambda>i. (xs ! i, ys ! i)) [0..<length ys]"
    using len by (intro nth_equalityI) auto
  then show ?thesis by (simp add: filter_map comp_def)
qed

lemma tokenFlowComponents_nonzero:
  "c \<in> set (tokenFlowComponents tokens units) \<Longrightarrow> unit c \<noteq> 0"
  by (simp add: tokenFlowComponents_def)

lemma tokenFlowComponents_by_index:
  "length tokens = length units \<Longrightarrow>
   tokenFlowComponents tokens units =
     map (\<lambda>i. \<lparr>address = tokens ! i, unit = units ! i\<rparr>)
       (filter (\<lambda>i. units ! i \<noteq> 0) [0..<length units])"
  by (simp add: tokenFlowComponents_def nth_filter_map_zip)

text \<open>
  C4: for a rebalancing set token in Rebalance state, \<^verbatim>\<open>getBidPriceAsync\<close> returns
  token flows without an entry whose unit is zero. With the unit arrays as long as the
  combined token array, the inflow (and likewise the outflow) consists of exactly the
  entries for the indices at which the raw unit is not zero, in index order, each with the
  token address and the unit found at that index.
\<close>

theorem getBidPrice_omits_zero_units:
  assumes "length combinedTokenArray = length inflowUnits"
      and "length combinedTokenArray = length outflowUnits"
  shows "\<exists>d. getBidPriceAsync addr Rebalance combinedTokenArray (inflowUnits, outflowUnits) = Inr d
           \<and> (\<forall>c \<in> set (inflow d) \<union> set (outflow d). unit c \<noteq> 0)
           \<and> inflow d =
               map (\<lambda>i. \<lparr>address = combinedTokenArray ! i, unit = inflowUnits ! i\<rparr>)
                 (filter (\<lambda>i. inflowUnits ! i \<noteq> 0) [0..<length inflowUnits])
           \<and> outflow d =
               map (\<lambda>i. \<lparr>address = combinedTokenArray ! i, unit = outflowUnits ! i\<rparr>)
                 (filter (\<lambda>i. outflowUnits ! i \<noteq> 0) [0..<length outflowUnits])"
  using assms
  by (auto simp: getBidPriceAsync_def tokenFlowComponents_by_index
        dest: tokenFlowComponents_nonzero)

theorem getBidPrice_omits_zero_units_witness:
  "getBidPriceAsync addressA Rebalance [addressA, addressB, ''0xC'', ''0xD'']
     ([0, 4, 0, 9], [2, 0, 3, 0]) =
   Inr \<lparr>inflow = [\<lparr>address = addressB, unit = 4\<rparr>, \<lparr>address = ''0xD'', unit = 9\<rparr>],
        outflow = [\<lparr>address = addressA, unit = 2\<rparr>, \<lparr>address = ''0xC'', unit = 3\<rparr>]\<rparr>"
proof -
  have l1: "length [addressA, addressB, ''0xC'', ''0xD''] = length [0::int, 4, 0, 9]" by simp
  have l2: "length [addressA, addressB, ''0xC'', ''0xD''] = length [2::int, 0, 3, 0]" by simp
  from getBidPrice_omits_zero_units [OF l1 l2, of addressA]
  show ?thesis by (auto simp: upt_rec [of 0] upt_rec [of 1] upt_rec [of 2] upt_rec [of 3] upt_rec [of 4]
    upt_rec[of "Suc 0"] upt_rec[of "Suc (Suc 0)"] upt_rec[of "Suc (Suc (Suc 0))"])
qed

text \<open>
  C7, as amended: a state-gated operation invoked while the token is in a state the
  operation does not accept fails with an error string that contains the token's address.
  For every operation but \<^verbatim>\<open>proposeAsync\<close> of \<^verbatim>\<open>RebalancingAPI\<close> the string is
  "Rebalancing token at <address> must be in <state> state to call that function." with
  the one state the operation accepts; for \<^verbatim>\<open>proposeAsync\<close> it is the message that
  the token is currently in rebalancing state.
\<close>

theorem wrong_state_message:
  assumes "\<not> permits op s"
  shows "\<exists>m. stateGate op addr s = Some m \<and> sublist addr m \<and>
           (if op = ProposeOp then m = rebalanceInProgressMessage addr
            else \<exists>required. permits op required \<and> m = incorrectStateMessage addr required \<and>
                   sublist (stateName required) m)"
proof -
  have a: "sublist addr (incorrectStateMessage addr r)" for r
    unfolding incorrectStateMessage_def by (rule sublist_appendI)
  have b: "sublist addr (rebalanceInProgressMessage addr)"
    unfolding rebalanceInProgressMessage_def by (rule sublist_appendI)
  have c: "sublist (stateName r) (incorrectStateMessage addr r)" for r
  proof -
    have "incorrectStateMessage addr r =
            (''Rebalancing token at '' @ addr @ '' must be in '') @ stateName r @
            '' state to call that function.''"
      by (simp add: incorrectStateMessage_def)
    then show ?thesis by (metis sublist_appendI)
  qed
  from assms show ?thesis
    by (cases op) (auto simp: a b c simp del: stateName.simps)
qed

theorem wrong_state_message_witness:
  "stateGate StartRebalanceOp addressA Default =
     Some ''Rebalancing token at 0x00000000000000000000000000000000000000aA must be in Proposal state to call that function.''
   \<and> sublist addressA
       ''Rebalancing token at 0x00000000000000000000000000000000000000aA must be in Proposal state to call that function.''
   \<and> sublist ''Proposal''
       ''Rebalancing token at 0x00000000000000000000000000000000000000aA must be in Proposal state to call that function.''"
proof -
  have w: "\<not> permits StartRebalanceOp Default" by simp
  have m: "incorrectStateMessage addressA Proposal =
     ''Rebalancing token at 0x00000000000000000000000000000000000000aA must be in Proposal state to call that function.''"
    by (simp add: incorrectStateMessage_def addressA_def)
  from wrong_state_message [OF w, of addressA] m show ?thesis by auto
qed

text \<open>
  C7 as stated fails for \<^verbatim>\<open>proposeAsync\<close>: invoked on a token in Rebalance state,
  which it does not accept, it is rejected with a string that contains the name of no
  state at all, so it does not name the state the operation requires.
\<close>

theorem propose_message_names_no_required_state:
  "\<not> permits ProposeOp Rebalance
   \<and> stateGate ProposeOp addressA Rebalance = Some (rebalanceInProgressMessage addressA)
   \<and> \<not> sublist (stateName Default) (rebalanceInProgressMessage addressA)
   \<and> \<not> sublist (stateName Proposal) (rebalanceInProgressMessage addressA)
   \<and> \<not> sublist (stateName Drawdown) (rebalanceInProgressMessage addressA)
   \<and> \<not> sublist (stateName Rebalance) (rebalanceInProgressMessage addressA)"
  by (simp add: rebalanceInProgressMessage_def addressA_def sublist_Cons_right)

text \<open>
  C8: a manager proposal made while the allocation percentage is within the bounds fails
  with the string "Current <token> allocation <percentage>% must be outside allocation
  bounds <lower> and <upper>.", which contains the current percentage and both bounds.
\<close>

theorem within_bounds_message:
  assumes "lower \<le> allocation" and "allocation < upper"
  shows "\<exists>m. priceTriggerGate tokenName allocation lower upper = Some m \<and>
           m = ''Current '' @ tokenName @ '' allocation '' @ toString allocation @
               ''% must be outside allocation bounds '' @ toString lower @ '' and '' @
               toString upper @ ''.'' \<and>
           sublist (toString allocation @ ''%'') m \<and>
           sublist (toString lower @ '' and '' @ toString upper) m"
proof -
  let ?m = "allocationBoundsMessage tokenName allocation lower upper"
  have g: "priceTriggerGate tokenName allocation lower upper = Some ?m"
    using assms by (simp add: priceTriggerGate_def)
  have p1: "?m = (''Current '' @ tokenName @ '' allocation '') @ (toString allocation @ ''%'') @
              ('' must be outside allocation bounds '' @ toString lower @ '' and '' @
               toString upper @ ''.'')"
    by (simp add: allocationBoundsMessage_def)
  have p2: "?m = (''Current '' @ tokenName @ '' allocation '' @ toString allocation @
               ''% must be outside allocation bounds '') @
              (toString lower @ '' and '' @ toString upper) @ ''.''"
    by (simp add: allocationBoundsMessage_def)
  have s1: "sublist (toString allocation @ ''%'') ?m" by (subst p1) (rule sublist_appendI)
  have s2: "sublist (toString lower @ '' and '' @ toString upper) ?m"
    by (subst p2) (rule sublist_appendI)
  from g s1 s2 show ?thesis by (simp add: allocationBoundsMessage_def)
qed

theorem within_bounds_message_witness:
  "priceTriggerGate ''BTC'' 49 48 52 =
     Some ''Current BTC allocation 49% must be outside allocation bounds 48 and 52.''
   \<and> sublist ''49%'' ''Current BTC allocation 49% must be outside allocation bounds 48 and 52.''
   \<and> sublist ''48 and 52'' ''Current BTC allocation 49% must be outside allocation bounds 48 and 52.''"
proof -
  have l: "(48::nat) \<le> 49" and u: "(49::nat) < 52" by simp_all
  have t: "toString 49 = ''49''" "toString 48 = ''48''" "toString 52 = ''52''"
    by (simp_all add: toString.simps)
  from within_bounds_message [OF l u, of "''BTC''"] t show ?thesis by simp
qed

end
